theory Spec2Isabelle
  imports Complex_Main
begin

section \<open>Arrays, exceptions and non-finite floats\<close>

text \<open>
  The numerical core of \<^verbatim>\<open>mmpose/core/evaluation/top_down_eval.py\<close> and of the Megvii
  codec works on numpy arrays of floats. An array is a nested list here (a heatmap batch
  of shape (N, K, H, W) is a list of N instances, each a list of K channels, each a list
  of H rows of W values), a float is a real number, and the last axis of a coordinate
  array (N, K, 2) is a pair (x, y). An exception of the source is the outcome
  \<open>Raises\<close>. A float operation that numpy answers with nan or inf (a division by zero,
  which warns and does not raise) has no real number for its value: the model stops
  there with the outcome \<open>NonFinite\<close>.
\<close>

datatype exn = AssertionError | ValueError | IndexError | LinAlgError | Cv2Error

datatype 'a res = Raises exn | NonFinite | Returns 'a

type_synonym chan = "real list list"

type_synonym heatmaps = "chan list list"

type_synonym coords = "(real \<times> real) list list"

fun bind_res :: "'a res \<Rightarrow> ('a \<Rightarrow> 'b res) \<Rightarrow> 'b res" where
  "bind_res (Raises e) f = Raises e"
| "bind_res NonFinite f = NonFinite"
| "bind_res (Returns x) f = f x"

text \<open>A loop whose body may fail: the first failure ends it, as the exception would.\<close>

fun map_res :: "('a \<Rightarrow> 'b res) \<Rightarrow> 'a list \<Rightarrow> 'b list res" where
  "map_res f [] = Returns []"
| "map_res f (x # xs) =
     bind_res (f x) (\<lambda>y. bind_res (map_res f xs) (\<lambda>ys. Returns (y # ys)))"

text \<open>A function applied to the value of an outcome.\<close>

fun res_map :: "('a \<Rightarrow> 'b) \<Rightarrow> 'a res \<Rightarrow> 'b res" where
  "res_map f (Raises e) = Raises e"
| "res_map f NonFinite = NonFinite"
| "res_map f (Returns x) = Returns (f x)"

definition shape4 :: "heatmaps \<Rightarrow> nat \<Rightarrow> nat \<Rightarrow> nat \<Rightarrow> nat \<Rightarrow> bool" where
  "shape4 hm N K H W \<longleftrightarrow>
     length hm = N \<and>
     list_all (\<lambda>inst. length inst = K \<and>
       list_all (\<lambda>ch. length ch = H \<and> list_all (\<lambda>row. length row = W) ch) inst) hm"

definition shape2 :: "chan \<Rightarrow> nat \<Rightarrow> nat \<Rightarrow> bool" where
  "shape2 ch H W \<longleftrightarrow> length ch = H \<and> list_all (\<lambda>row. length row = W) ch"

text \<open>\<^verbatim>\<open>heatmaps.shape[3]\<close> of a non-empty batch.\<close>

definition shape_W :: "heatmaps \<Rightarrow> nat" where
  "shape_W hm = (case hm of ((row # _) # _) # _ \<Rightarrow> length row | _ \<Rightarrow> 0)"

definition shape_H :: "heatmaps \<Rightarrow> nat" where
  "shape_H hm = (case hm of (ch # _) # _ \<Rightarrow> length ch | _ \<Rightarrow> 0)"

text \<open>Python indexing of one axis: a negative index counts from the end.\<close>

definition py_get :: "'a list \<Rightarrow> int \<Rightarrow> 'a res" where
  "py_get xs i =
     (let n = int (length xs); j = (if i < 0 then n + i else i)
      in if 0 \<le> j \<and> j < n then Returns (xs ! nat j) else Raises IndexError)"

definition py_get2 :: "chan \<Rightarrow> int \<Rightarrow> int \<Rightarrow> real res" where
  "py_get2 ch y x = bind_res (py_get ch y) (\<lambda>row. py_get row x)"

text \<open>\<^verbatim>\<open>int(v)\<close> of a float truncates towards zero.\<close>

definition py_int :: "real \<Rightarrow> int" where
  "py_int v = (if 0 \<le> v then \<lfloor>v\<rfloor> else \<lceil>v\<rceil>)"

text \<open>\<^verbatim>\<open>np.sign\<close>.\<close>

definition np_sign :: "real \<Rightarrow> real" where
  "np_sign v = (if v < 0 then -1 else if v = 0 then 0 else 1)"

section \<open>Heatmap maximum finder\<close>

text \<open>
  \<^verbatim>\<open>np.argmax\<close> and \<^verbatim>\<open>np.amax\<close> over a flattened channel (which is not empty where they
  are called): the index of the first occurrence of the maximum, and the maximum.
\<close>

fun np_argmax :: "real list \<Rightarrow> nat" where
  "np_argmax [] = 0"
| "np_argmax [x] = 0"
| "np_argmax (x # xs) = (let i = np_argmax xs in if x < xs ! i then Suc i else 0)"

fun np_amax :: "real list \<Rightarrow> real" where
  "np_amax [] = 0"
| "np_amax (x # xs) = fold max xs x"

text \<open>
  \<^verbatim>\<open>_get_max_preds\<close>, one (instance, channel): \<^verbatim>\<open>idx % W\<close>, \<^verbatim>\<open>idx // W\<close> and the
  \<^verbatim>\<open>np.where(maxvals > 0.0, preds, -1)\<close> of the source.
\<close>

definition max_pred_chan :: "nat \<Rightarrow> chan \<Rightarrow> (real \<times> real) \<times> real" where
  "max_pred_chan W ch =
     (let flat = concat ch; idx = np_argmax flat; maxval = np_amax flat;
          pred = (real (idx mod W), real (idx div W))
      in (if maxval > 0 then pred else (-1, -1), maxval))"

text \<open>
  \<^verbatim>\<open>_get_max_preds\<close>. An array with no element cannot be reshaped to (N, K, -1) and has
  no argmax: ValueError. The scores have shape (N, K, 1).
\<close>

definition get_max_preds :: "heatmaps \<Rightarrow> (coords \<times> real list list list) res" where
  "get_max_preds hm =
     (if hm = [] \<or> list_ex (\<lambda>inst. inst = [] \<or> list_ex (\<lambda>ch. concat ch = []) inst) hm
      then Raises ValueError
      else let W = shape_W hm
           in Returns (map (map (\<lambda>ch. fst (max_pred_chan W ch))) hm,
                       map (map (\<lambda>ch. [snd (max_pred_chan W ch)])) hm))"

section \<open>Distances and accuracy metrics\<close>

text \<open>
  A float division whose divisor is zero gives inf or nan and only warns. A distance is
  a \<open>real option\<close>: \<open>None\<close> is such a non-finite value. It differs from the sentinel -1
  and is below no threshold.
\<close>

definition fdiv :: "real \<Rightarrow> real \<Rightarrow> real option" where
  "fdiv a b = (if b = 0 then None else Some (a / b))"

text \<open>\<^verbatim>\<open>np.linalg.norm(..., axis=-1)\<close> of one normalized difference.\<close>

definition norm_dist :: "real \<times> real \<Rightarrow> real \<times> real \<Rightarrow> real \<times> real \<Rightarrow> real option" where
  "norm_dist p t nrm =
     (case (fdiv (fst p - fst t) (fst nrm), fdiv (snd p - snd t) (snd nrm)) of
        (Some u, Some v) \<Rightarrow> Some (sqrt (u\<^sup>2 + v\<^sup>2))
      | _ \<Rightarrow> None)"

text \<open>
  The arguments of the metrics have the shapes (N, K, 2), (N, K, 2), (N, K) and (N, 2).
\<close>

definition metric_shapes ::
  "coords \<Rightarrow> coords \<Rightarrow> bool list list \<Rightarrow> (real \<times> real) list \<Rightarrow> nat \<Rightarrow> nat \<Rightarrow> bool" where
  "metric_shapes preds targets vis_mask norm_factor N K \<longleftrightarrow>
     length preds = N \<and> length targets = N \<and> length vis_mask = N \<and> length norm_factor = N \<and>
     list_all (\<lambda>p. length p = K) preds \<and> list_all (\<lambda>t. length t = K) targets \<and>
     list_all (\<lambda>m. length m = K) vis_mask"

text \<open>
  \<^verbatim>\<open>_calc_distances\<close>. \<^verbatim>\<open>N, K, _ = preds.shape\<close>; an empty batch has no channel in this
  representation. The array (K, N) starts full of -1. The boolean-vis_mask assignment
  \<^verbatim>\<open>distances[mask.T] = norm(...[mask])\<close> takes the selected values in the row-major order
  of \<^verbatim>\<open>mask\<close> (instance first) and stores them in the row-major order of the true entries
  of \<^verbatim>\<open>mask.T\<close> (channel first): the value stored at a true entry (k, n) is the one whose
  rank among the selected values is the number of true entries of \<^verbatim>\<open>mask.T\<close> before (k, n).
  Arrays whose shapes do not fit are refused by numpy.
\<close>

definition calc_distances ::
  "coords \<Rightarrow> coords \<Rightarrow> bool list list \<Rightarrow> (real \<times> real) list \<Rightarrow> real option list list res" where
  "calc_distances preds targets vis_mask norm_factor =
     (let N = length preds; K = (case preds of [] \<Rightarrow> 0 | p # _ \<Rightarrow> length p)
      in if \<not> metric_shapes preds targets vis_mask norm_factor N K then Raises ValueError
         else
           let vals = concat (map (\<lambda>n. map (\<lambda>k. norm_dist (preds ! n ! k) (targets ! n ! k)
                                                  (norm_factor ! n))
                                         (filter (\<lambda>k. vis_mask ! n ! k) [0..<K])) [0..<N]);
               maskT = concat (map (\<lambda>k. map (\<lambda>n. vis_mask ! n ! k) [0..<N]) [0..<K])
           in Returns (map (\<lambda>k. map (\<lambda>n. if vis_mask ! n ! k
                                        then vals ! length (filter id (take (k * N + n) maskT))
                                        else Some (- 1)) [0..<N]) [0..<K]))"

text \<open>\<^verbatim>\<open>_distance_acc\<close>: the share of the valid distances below \<open>thr\<close>, or -1.\<close>

definition distance_acc :: "real option list \<Rightarrow> real \<Rightarrow> real" where
  "distance_acc distances thr =
     (let distance_valid = filter (\<lambda>d. d \<noteq> Some (- 1)) distances;
          num_distance_valid = length distance_valid
      in if num_distance_valid > 0
         then real (length (filter (\<lambda>d. case d of Some v \<Rightarrow> v < thr | None \<Rightarrow> False)
                              distance_valid)) / real num_distance_valid
         else - 1)"

text \<open>\<^verbatim>\<open>keypoint_pck_accuracy\<close>: (acc, avg_acc, cnt).\<close>

definition keypoint_pck_accuracy ::
  "coords \<Rightarrow> coords \<Rightarrow> bool list list \<Rightarrow> real \<Rightarrow> (real \<times> real) list
     \<Rightarrow> (real list \<times> real \<times> nat) res" where
  "keypoint_pck_accuracy pred gt vis_mask thr norm_factor =
     bind_res (calc_distances pred gt vis_mask norm_factor) (\<lambda>distances.
       let acc = map (\<lambda>d. distance_acc d thr) distances;
           valid_acc = filter (\<lambda>a. a \<ge> 0) acc;
           cnt = length valid_acc;
           avg_acc = (if cnt > 0 then sum_list valid_acc / real cnt else 0)
       in Returns (acc, avg_acc, cnt))"

text \<open>
  \<^verbatim>\<open>keypoint_auc\<close>: the thresholds \<open>i / num_step\<close> for \<open>i < num_step\<close>, and the mean of the
  averaged accuracies.
\<close>

definition keypoint_auc ::
  "coords \<Rightarrow> coords \<Rightarrow> bool list list \<Rightarrow> real \<Rightarrow> nat \<Rightarrow> real res" where
  "keypoint_auc pred gt vis_mask norm_factor num_step =
     (let nor = replicate (length pred) (norm_factor, norm_factor);
          x = map (\<lambda>i. 1 * real i / real num_step) [0..<num_step]
      in bind_res (map_res (\<lambda>thr. bind_res (keypoint_pck_accuracy pred gt vis_mask thr nor)
                                     (\<lambda>(_, avg_acc, _). Returns avg_acc)) x)
           (\<lambda>y. Returns (fold (\<lambda>i auc. auc + 1 / real num_step * y ! i) [0..<num_step] 0)))"


section \<open>Gaussian blur\<close>

text \<open>
  \<^verbatim>\<open>cv2.GaussianBlur(src, (k, k), 0)\<close> is a library call: a separable filter with one list of
  k coefficients for both axes and the border mode BORDER_REFLECT_101. The coefficients are
  a parameter \<open>gk\<close> of the model (the list for each kernel size); for the sizes up to 7
  and sigma 0 the library takes them from a fixed table, which \<open>small_gaussian_tab\<close>
  gives for the concrete evaluations. The library refuses an empty image and an even size.
\<close>

definition small_gaussian_tab :: "nat \<Rightarrow> real list" where
  "small_gaussian_tab k =
     (if k = 1 then [1]
      else if k = 3 then [1 / 4, 1 / 2, 1 / 4]
      else if k = 5 then [1 / 16, 1 / 4, 3 / 8, 1 / 4, 1 / 16]
      else if k = 7 then [1 / 32, 7 / 64, 7 / 32, 9 / 32, 7 / 32, 7 / 64, 1 / 32]
      else [])"

text \<open>BORDER_REFLECT_101 of an index on an axis of the given length: \<open>gfedcb|abcdefgh|gfedcba\<close>.\<close>

definition reflect101 :: "nat \<Rightarrow> int \<Rightarrow> nat" where
  "reflect101 len p =
     (if len \<le> 1 then 0
      else let m = 2 * (int len - 1); q = p mod m
           in nat (if q < int len then q else m - q))"

definition conv1d :: "real list \<Rightarrow> real list \<Rightarrow> real list" where
  "conv1d kern xs =
     map (\<lambda>i. \<Sum>j\<leftarrow>[0..<length kern].
                 kern ! j * xs ! reflect101 (length xs) (int i + int j - int (length kern div 2)))
         [0..<length xs]"

definition sep_filter :: "real list \<Rightarrow> chan \<Rightarrow> chan" where
  "sep_filter kern img =
     (let rows = map (conv1d kern) img
      in map (\<lambda>y. map (\<lambda>x. \<Sum>j\<leftarrow>[0..<length kern].
                                kern ! j * rows ! reflect101 (length img)
                                                    (int y + int j - int (length kern div 2)) ! x)
                        [0..<length (img ! y)])
             [0..<length img])"

definition GaussianBlur :: "(nat \<Rightarrow> real list) \<Rightarrow> int \<Rightarrow> chan \<Rightarrow> chan res" where
  "GaussianBlur gk ksize img =
     (if concat img = [] \<or> ksize \<le> 0 \<or> ksize mod 2 \<noteq> 1 then Raises Cv2Error
      else Returns (sep_filter (gk (nat ksize)) img))"

text \<open>
  \<^verbatim>\<open>_gaussian_blur\<close>, one (instance, channel), for an odd kernel. \<^verbatim>\<open>np.max\<close> of an empty
  channel raises. With \<open>border = 0\<close> the slice \<^verbatim>\<open>dr[border:-border, border:-border]\<close> is
  empty and the assignments to and from it cannot broadcast; a negative border gives a
  smaller or ill-shaped \<^verbatim>\<open>dr\<close> with the same outcome: ValueError. Otherwise the channel is
  put in the middle of a zero array, blurred, cut out again and multiplied by
  \<^verbatim>\<open>origin_max / np.max(...)\<close>, a float division: when the blurred maximum is 0 the factor is
  nan or inf and so is the entry at that maximum.
\<close>

definition zero_pad :: "nat \<Rightarrow> nat \<Rightarrow> chan \<Rightarrow> chan" where
  "zero_pad border width ch =
     replicate border (replicate (width + 2 * border) 0)
     @ map (\<lambda>row. replicate border 0 @ row @ replicate border 0) ch
     @ replicate border (replicate (width + 2 * border) 0)"

text \<open>The slice \<^verbatim>\<open>[border:-border]\<close> of one axis, for a positive border.\<close>

definition slice_border :: "nat \<Rightarrow> 'a list \<Rightarrow> 'a list" where
  "slice_border border xs = take (length xs - 2 * border) (drop border xs)"

definition gaussian_blur_chan ::
  "(nat \<Rightarrow> real list) \<Rightarrow> int \<Rightarrow> nat \<Rightarrow> chan \<Rightarrow> chan res" where
  "gaussian_blur_chan gk kernel_size width ch =
     (let border = (kernel_size - 1) div 2
      in if concat ch = [] then Raises ValueError
         else let origin_max = np_amax (concat ch)
              in if border \<le> 0 then Raises ValueError
                 else let dr = zero_pad (nat border) width ch
                      in bind_res (GaussianBlur gk kernel_size dr) (\<lambda>dr.
                           let blurred = map (slice_border (nat border))
                                             (slice_border (nat border) dr);
                               blurred_max = np_amax (concat blurred)
                           in if blurred_max = 0 then NonFinite
                              else Returns (map (map (\<lambda>v. v * (origin_max / blurred_max)))
                                                blurred)))"

text \<open>
  \<^verbatim>\<open>_gaussian_blur\<close>. The source writes every blurred channel back into the array it was
  given and returns that array: the result is also the new content of the caller's array.
\<close>

definition gaussian_blur :: "(nat \<Rightarrow> real list) \<Rightarrow> heatmaps \<Rightarrow> int \<Rightarrow> heatmaps res" where
  "gaussian_blur gk hm kernel_size =
     (if kernel_size mod 2 \<noteq> 1 then Raises AssertionError
      else map_res (map_res (gaussian_blur_chan gk kernel_size (shape_W hm))) hm)"


section \<open>Sub-pixel refinement\<close>

text \<open>
  A 2 x 2 matrix is the pair of its rows. \<^verbatim>\<open>np.linalg.inv\<close> raises LinAlgError on a singular
  matrix.
\<close>

type_synonym mat2 = "(real \<times> real) \<times> (real \<times> real)"

definition det2 :: "mat2 \<Rightarrow> real" where
  "det2 m = fst (fst m) * snd (snd m) - snd (fst m) * fst (snd m)"

definition linalg_inv :: "mat2 \<Rightarrow> mat2 res" where
  "linalg_inv m =
     (if det2 m = 0 then Raises LinAlgError
      else Returns ((snd (snd m) / det2 m, - snd (fst m) / det2 m),
                    (- fst (snd m) / det2 m, fst (fst m) / det2 m)))"

definition matvec2 :: "mat2 \<Rightarrow> real \<times> real \<Rightarrow> real \<times> real" where
  "matvec2 m v = (fst (fst m) * fst v + snd (fst m) * snd v,
                  fst (snd m) * fst v + snd (snd m) * snd v)"

text \<open>\<^verbatim>\<open>heatmap.shape[:2]\<close> of one channel.\<close>

definition chan_H :: "chan \<Rightarrow> nat" where
  "chan_H ch = length ch"

definition chan_W :: "chan \<Rightarrow> nat" where
  "chan_W ch = (case ch of [] \<Rightarrow> 0 | row # _ \<Rightarrow> length row)"

text \<open>
  \<^verbatim>\<open>_taylor\<close>: the second-order correction of one coordinate on one (log-space) channel.
\<close>

definition taylor :: "chan \<Rightarrow> real \<times> real \<Rightarrow> (real \<times> real) res" where
  "taylor heatmap coord =
     (let H = int (chan_H heatmap); W = int (chan_W heatmap);
          px = py_int (fst coord); py = py_int (snd coord)
      in if 1 < px \<and> px < W - 2 \<and> 1 < py \<and> py < H - 2 then
           bind_res (py_get2 heatmap py (px + 1)) (\<lambda>x1.
           bind_res (py_get2 heatmap py (px - 1)) (\<lambda>x1'.
           bind_res (py_get2 heatmap (py + 1) px) (\<lambda>y1.
           bind_res (py_get2 heatmap (py - 1) px) (\<lambda>y1'.
           bind_res (py_get2 heatmap py (px + 2)) (\<lambda>x2.
           bind_res (py_get2 heatmap py px) (\<lambda>c.
           bind_res (py_get2 heatmap py (px - 2)) (\<lambda>x2'.
           bind_res (py_get2 heatmap (py + 1) (px + 1)) (\<lambda>x1y1.
           bind_res (py_get2 heatmap (py - 1) (px + 1)) (\<lambda>x1y1'.
           bind_res (py_get2 heatmap (py + 1) (px - 1)) (\<lambda>x1'y1.
           bind_res (py_get2 heatmap (py - 1) (px - 1)) (\<lambda>x1'y1'.
           bind_res (py_get2 heatmap (py + 2 * 1) px) (\<lambda>y2.
           bind_res (py_get2 heatmap (py - 2 * 1) px) (\<lambda>y2'.
             let dx = 0.5 * (x1 - x1');
                 dy = 0.5 * (y1 - y1');
                 dxx = 0.25 * (x2 - 2 * c + x2');
                 dxy = 0.25 * (x1y1 - x1y1' - x1'y1 + x1'y1');
                 dyy = 0.25 * (y2 - 2 * c + y2');
                 derivative = (dx, dy);
                 hessian = ((dxx, dxy), (dxy, dyy))
             in if dxx * dyy - dxy\<^sup>2 \<noteq> 0 then
                  bind_res (linalg_inv hessian) (\<lambda>hessianinv.
                    let offset = (- fst (matvec2 hessianinv derivative),
                                  - snd (matvec2 hessianinv derivative))
                    in Returns (fst coord + fst offset, snd coord + snd offset))
                else Returns coord)))))))))))))
         else Returns coord)"

text \<open>
  The shift refinement of \<^verbatim>\<open>keypoints_from_heatmaps\<close> (post-processing on, not unbiased, no
  UDP), one (instance, channel): the body of its double loop, with the W and H of the
  batch.
\<close>

definition shift_pred :: "nat \<Rightarrow> nat \<Rightarrow> chan \<Rightarrow> real \<times> real \<Rightarrow> (real \<times> real) res" where
  "shift_pred W H heatmap pred =
     (let px = py_int (fst pred); py = py_int (snd pred)
      in if 1 < px \<and> px < int W - 1 \<and> 1 < py \<and> py < int H - 1 then
           bind_res (py_get2 heatmap py (px + 1)) (\<lambda>x1.
           bind_res (py_get2 heatmap py (px - 1)) (\<lambda>x1'.
           bind_res (py_get2 heatmap (py + 1) px) (\<lambda>y1.
           bind_res (py_get2 heatmap (py - 1) px) (\<lambda>y1'.
             let diff = (x1 - x1', y1 - y1')
             in Returns (fst pred + np_sign (fst diff) * 0.25,
                         snd pred + np_sign (snd diff) * 0.25)))))
         else Returns pred)"

text \<open>A double loop over (instance, channel) that updates \<^verbatim>\<open>preds[n][k]\<close> from its channel.\<close>

definition refine_all ::
  "(chan \<Rightarrow> real \<times> real \<Rightarrow> (real \<times> real) res) \<Rightarrow> heatmaps \<Rightarrow> coords \<Rightarrow> coords res" where
  "refine_all f hm preds =
     map_res (\<lambda>(inst, ps). map_res (\<lambda>(ch, p). f ch p) (zip inst ps)) (zip hm preds)"

text \<open>
  The finite differences named by the specification of the Taylor refinement, read from a
  channel at in-range positions around the peak (px, py).
\<close>

definition px_at :: "chan \<Rightarrow> int \<Rightarrow> int \<Rightarrow> real" where
  "px_at ch y x = ch ! nat y ! nat x"






text \<open>The distance of the pixel (px, py) to the nearest border of an H x W map.\<close>

definition border_dist :: "nat \<Rightarrow> nat \<Rightarrow> int \<Rightarrow> int \<Rightarrow> int" where
  "border_dist W H px py = min (min px (int W - 1 - px)) (min py (int H - 1 - py))"

section \<open>DARK refinement\<close>

text \<open>
  The first loop of \<^verbatim>\<open>post_dark\<close> runs over every (i, j) of the batch and each time blurs
  \<^verbatim>\<open>batch_heatmaps[0, j]\<close> in place: instance 0 is blurred once for every instance of the
  batch, the other instances are not touched.
\<close>

fun blur_times :: "(nat \<Rightarrow> real list) \<Rightarrow> nat \<Rightarrow> chan \<Rightarrow> chan res" where
  "blur_times gk 0 ch = Returns ch"
| "blur_times gk (Suc n) ch = bind_res (GaussianBlur gk 3 ch) (blur_times gk n)"

definition dark_blur_inplace :: "(nat \<Rightarrow> real list) \<Rightarrow> heatmaps \<Rightarrow> heatmaps res" where
  "dark_blur_inplace gk batch_heatmaps =
     (case batch_heatmaps of
        [] \<Rightarrow> Returns []
      | inst0 # rest \<Rightarrow>
          bind_res (map_res (blur_times gk (length batch_heatmaps)) inst0) (\<lambda>inst0'.
            Returns (inst0' # rest)))"

text \<open>\<^verbatim>\<open>np.log(np.clip(v, 0.001, 50))\<close>.\<close>

definition clip_log :: "real \<Rightarrow> real" where
  "clip_log v = ln (min (max v (1 / 1000)) 50)"

text \<open>The padded copy of one channel: one pixel on every side, filled from the edge.\<close>

definition edge1 :: "'a list \<Rightarrow> 'a list" where
  "edge1 xs = (case xs of [] \<Rightarrow> [] | x # _ \<Rightarrow> x # xs @ [last xs])"

definition pad_edge :: "chan \<Rightarrow> chan" where
  "pad_edge ch = edge1 (map edge1 ch)"

text \<open>
  The seven samples of keypoint (i, j), all read from \<^verbatim>\<open>batch_heatmaps_pad[0, j]\<close>, and the
  derivative and Hessian the source forms from them.
\<close>

definition dark_sample ::
  "heatmaps \<Rightarrow> nat \<Rightarrow> int \<times> int \<Rightarrow> ((real \<times> real) \<times> mat2) res" where
  "dark_sample batch_heatmaps_pad j c =
     bind_res (py_get batch_heatmaps_pad 0) (\<lambda>inst0.
     bind_res (py_get inst0 (int j)) (\<lambda>m.
     bind_res (py_get2 m (snd c + 1) (fst c + 1)) (\<lambda>i0.
     bind_res (py_get2 m (snd c + 1) (fst c + 2)) (\<lambda>ix1.
     bind_res (py_get2 m (snd c + 1) (fst c)) (\<lambda>ix1m.
     bind_res (py_get2 m (snd c + 2) (fst c + 1)) (\<lambda>iy1.
     bind_res (py_get2 m (snd c) (fst c + 1)) (\<lambda>iy1m.
     bind_res (py_get2 m (snd c + 2) (fst c + 2)) (\<lambda>ix1y1.
     bind_res (py_get2 m (snd c) (fst c)) (\<lambda>ix1my1m.
       let dx = 0.5 * (ix1 - ix1m);
           dy = 0.5 * (iy1 - iy1m);
           dxx = ix1 - 2 * i0 + ix1m;
           dyy = iy1 - 2 * i0 + iy1m;
           dxy = 0.5 * (ix1y1 - ix1 - iy1 + i0 + i0 - ix1m - iy1m + ix1my1m)
       in Returns ((dx, dy), ((dxx, dxy), (dxy, dyy))))))))))))"

text \<open>\<^verbatim>\<open>hessian + 1e-8 * np.eye(2)\<close>.\<close>

definition add_eps :: "mat2 \<Rightarrow> mat2" where
  "add_eps h = ((fst (fst h) + 1 / 10 ^ 8, snd (fst h)), (fst (snd h), snd (snd h) + 1 / 10 ^ 8))"

text \<open>
  \<^verbatim>\<open>post_dark\<close> on a numpy batch: the refined coordinates, and the content of the caller's
  array afterwards (the blur wrote into it; the clipped logarithm is a new array).
\<close>

definition post_dark ::
  "(nat \<Rightarrow> real list) \<Rightarrow> coords \<Rightarrow> heatmaps \<Rightarrow> (coords \<times> heatmaps) res" where
  "post_dark gk coords batch_heatmaps =
     bind_res (dark_blur_inplace gk batch_heatmaps) (\<lambda>blurred.
       let batch_heatmaps_pad = map (map (\<lambda>ch. pad_edge (map (map clip_log) ch))) blurred;
           icoords = map (map (\<lambda>c. (py_int (fst c), py_int (snd c)))) coords
       in bind_res (map_res (\<lambda>row. map_res (\<lambda>(j, c). dark_sample batch_heatmaps_pad j c)
                                      (zip [0..<length row] row)) icoords) (\<lambda>samples.
          bind_res (map_res (map_res (\<lambda>(derivative, hessian).
                       bind_res (linalg_inv (add_eps hessian)) (\<lambda>inv_hessian.
                         Returns (derivative, inv_hessian)))) samples) (\<lambda>invs.
            Returns (map2 (map2 (\<lambda>c (derivative, inv_hessian).
                              (real_of_int (fst c) - fst (matvec2 inv_hessian derivative),
                               real_of_int (snd c) - snd (matvec2 inv_hessian derivative))))
                          icoords invs,
                     blurred))))"

section \<open>Decoding a batch of heatmaps\<close>

text \<open>The slices \<^verbatim>\<open>[::3]\<close>, \<^verbatim>\<open>[1::3]\<close> and \<^verbatim>\<open>[2::3]\<close> of the channel axis.\<close>

fun every3 :: "'a list \<Rightarrow> 'a list" where
  "every3 [] = []"
| "every3 (x # xs) = x # every3 (drop 2 xs)"

text \<open>
  The CombinedTarget branch of \<^verbatim>\<open>keypoints_from_heatmaps\<close>: it works on a copy of the
  batch, blurs the response and offset maps of every keypoint and adds the offsets read at
  the peak.
\<close>

definition combined_target ::
  "(nat \<Rightarrow> real list) \<Rightarrow> heatmaps \<Rightarrow> int \<Rightarrow> real \<Rightarrow> nat
     \<Rightarrow> (coords \<times> real list list list) res" where
  "combined_target gk net_output kernel_size kpd H =
     (let kps_pos_distance_x = kpd / 64 * real H;
          kps_pos_distance_y = kpd / 64 * real H;
          blur_inst = (\<lambda>inst.
            let hs = every3 inst;
                offset_x = map (map (map (\<lambda>v. v * kps_pos_distance_x))) (every3 (drop 1 inst));
                offset_y = map (map (map (\<lambda>v. v * kps_pos_distance_y))) (every3 (drop 2 inst))
            in map_res (\<lambda>j.
                 bind_res (GaussianBlur gk (2 * kernel_size + 1) (hs ! j)) (\<lambda>h.
                 bind_res (py_get offset_x (int j)) (\<lambda>ox.
                 bind_res (GaussianBlur gk kernel_size ox) (\<lambda>ox.
                 bind_res (py_get offset_y (int j)) (\<lambda>oy.
                 bind_res (GaussianBlur gk kernel_size oy) (\<lambda>oy.
                   Returns (h, ox, oy)))))))
                 [0..<length hs])
      in bind_res (map_res blur_inst net_output) (\<lambda>blurred.
         bind_res (get_max_preds (map (map fst) blurred)) (\<lambda>(coords, maxvals).
         bind_res (map_res (\<lambda>(inst, ps). map_res (\<lambda>((h, ox, oy), p).
                      let px = py_int (fst p); py = py_int (snd p)
                      in bind_res (py_get2 ox py px) (\<lambda>dx.
                         bind_res (py_get2 oy py px) (\<lambda>dy.
                           Returns (fst p + dx, snd p + dy)))) (zip inst ps))
                    (zip blurred coords)) (\<lambda>coords.
           Returns (coords, maxvals)))))"

text \<open>
  \<^verbatim>\<open>keypoints_from_heatmaps\<close>. \<^verbatim>\<open>transform_preds\<close> is imported from a module that is not part
  of the sources at hand: it is the parameter \<open>tp\<close>, applied to the coordinates of one
  instance with its center, its scale, the heatmap size [W, H] and the UDP flag. The
  result is the pair (preds, maxvals) together with the content of the caller's
  \<^verbatim>\<open>heatmaps\<close> array when the function returns.
\<close>

definition keypoints_from_heatmaps ::
  "(((real \<times> real) list \<Rightarrow> real \<times> real \<Rightarrow> real \<times> real \<Rightarrow> nat \<times> nat \<Rightarrow> bool \<Rightarrow> (real \<times> real) list))
     \<Rightarrow> (nat \<Rightarrow> real list) \<Rightarrow> heatmaps \<Rightarrow> (real \<times> real) list \<Rightarrow> (real \<times> real) list
     \<Rightarrow> bool \<Rightarrow> bool \<Rightarrow> int \<Rightarrow> real \<Rightarrow> bool \<Rightarrow> string
     \<Rightarrow> ((coords \<times> real list list list) \<times> heatmaps) res" where
  "keypoints_from_heatmaps tp gk heatmaps center scale post_process unbiased kernel_size kpd
       use_udp target_type =
     (let N = length heatmaps; H = shape_H heatmaps; W = shape_W heatmaps
      in bind_res
           (if use_udp then
              (if target_type = ''GaussianHeatMap'' then
                 bind_res (get_max_preds heatmaps) (\<lambda>(coords, maxvals).
                   if post_process
                   then bind_res (post_dark gk coords heatmaps) (\<lambda>(coords, heatmaps).
                          Returns (coords, maxvals, heatmaps))
                   else Returns (coords, maxvals, heatmaps))
               else if target_type = ''CombinedTarget'' then
                 bind_res (combined_target gk heatmaps kernel_size kpd H) (\<lambda>(coords, maxvals).
                   Returns (coords, maxvals, heatmaps))
               else Raises AssertionError)
            else
              bind_res (get_max_preds heatmaps) (\<lambda>(preds, maxvals).
                if post_process then
                  (if unbiased then
                     (if \<not> kernel_size > 0 then Raises AssertionError
                      else bind_res (gaussian_blur gk heatmaps kernel_size) (\<lambda>heatmaps.
                             bind_res (refine_all taylor
                                         (map (map (map (map (\<lambda>v. ln (max v (1 / 10 ^ 10))))))
                                              heatmaps) preds) (\<lambda>preds.
                               Returns (preds, maxvals, heatmaps))))
                   else bind_res (refine_all (shift_pred W H) heatmaps preds) (\<lambda>preds.
                          Returns (preds, maxvals, heatmaps)))
                else Returns (preds, maxvals, heatmaps)))
           (\<lambda>(preds, maxvals, heatmaps_after).
              bind_res (map_res (\<lambda>i. bind_res (py_get center (int i)) (\<lambda>c.
                                       bind_res (py_get scale (int i)) (\<lambda>s.
                                         Returns (tp (preds ! i) c s (W, H) use_udp))))
                                [0..<N]) (\<lambda>preds.
                Returns ((preds, maxvals), heatmaps_after))))"

section \<open>Megvii heatmap codec: decode\<close>

text \<open>
  \<^verbatim>\<open>MegviiHeatmap.decode\<close> of \<^verbatim>\<open>mmpose/core/keypoint/codecs/megvii_heatmap.py\<close>. The helpers
  \<^verbatim>\<open>gaussian_blur\<close> and \<^verbatim>\<open>get_heatmap_maximum\<close> come from the module \<^verbatim>\<open>.utils\<close>, which is not part
  of the sources at hand: they are the parameters \<open>utils_gaussian_blur\<close> and
  \<open>utils_get_heatmap_maximum\<close> of the model, the first from a (K, H, W)
  array and the kernel size to the blurred array, the second from a (K, H, W) array to
  the (K, 2) peak coordinates and the (K,) peak values. The instance axis that
  \<^verbatim>\<open>keypoints[None]\<close> adds is one more list level.
\<close>

definition megvii_shift :: "nat \<Rightarrow> nat \<Rightarrow> chan \<Rightarrow> real \<times> real \<Rightarrow> (real \<times> real) res" where
  "megvii_shift W H heatmap kp =
     (let px = py_int (fst kp); py = py_int (snd kp)
      in if 1 < px \<and> px < int W - 1 \<and> 1 < py \<and> py < int H - 1 then
           bind_res (py_get2 heatmap py (px + 1)) (\<lambda>x1.
           bind_res (py_get2 heatmap py (px - 1)) (\<lambda>x1'.
           bind_res (py_get2 heatmap (py + 1) px) (\<lambda>y1.
           bind_res (py_get2 heatmap (py - 1) px) (\<lambda>y1'.
             let diff = (x1 - x1', y1 - y1')
             in Returns (fst kp + (np_sign (fst diff) * 0.25 + 0.5),
                         snd kp + (np_sign (snd diff) * 0.25 + 0.5))))))
         else Returns kp)"

definition megvii_decode ::
  "(chan list \<Rightarrow> 'ks \<Rightarrow> chan list res) \<Rightarrow> (chan list \<Rightarrow> ((real \<times> real) list \<times> real list) res)
     \<Rightarrow> 'ks \<Rightarrow> chan list
     \<Rightarrow> ((real \<times> real) list list \<times> (real \<times> real) list list list) res" where
  "megvii_decode utils_gaussian_blur utils_get_heatmap_maximum kernel_size encoded =
     bind_res (utils_gaussian_blur encoded kernel_size) (\<lambda>heatmaps.
       let K = length heatmaps;
           H = (case heatmaps of [] \<Rightarrow> 0 | ch # _ \<Rightarrow> chan_H ch);
           W = (case heatmaps of [] \<Rightarrow> 0 | ch # _ \<Rightarrow> chan_W ch)
       in bind_res (utils_get_heatmap_maximum heatmaps) (\<lambda>(keypoints, scores).
          bind_res (map_res (\<lambda>k. bind_res (py_get keypoints (int k)) (\<lambda>kp.
                                  megvii_shift W H (heatmaps ! k) kp)) [0..<K]) (\<lambda>refined.
            let keypoints = refined @ drop K keypoints;
                scores = map (\<lambda>s. s / 255 + 0.5) scores;
                keypoints = [keypoints];
                scores = [keypoints]
            in Returns (keypoints, scores))))"

text \<open>An array of shape (K, H, W).\<close>

definition shape3 :: "chan list \<Rightarrow> nat \<Rightarrow> nat \<Rightarrow> nat \<Rightarrow> bool" where
  "shape3 hm K H W \<longleftrightarrow> length hm = K \<and> list_all (\<lambda>ch. shape2 ch H W) hm"

section \<open>Properties of the maximum finder\<close>








lemma shape2_concat_length: "shape2 ch H W \<Longrightarrow> length (concat ch) = H * W"
proof (induction ch arbitrary: H)
  case Nil
  then show ?case by (simp add: shape2_def)
next
  case (Cons r ch)
  then obtain H' where H: "H = Suc H'" by (cases H) (auto simp: shape2_def)
  with Cons.prems have "shape2 ch H' W" "length r = W" by (auto simp: shape2_def)
  with Cons.IH H show ?case by simp
qed

lemma shape4_shape_W:
  assumes "shape4 hm N K H W" "0 < N" "0 < K" "0 < H"
  shows "shape_W hm = W"
proof -
  from assms obtain i hm' where hm: "hm = i # hm'" by (cases hm) (auto simp: shape4_def)
  with assms obtain c cs where i: "i = c # cs" by (cases i) (auto simp: shape4_def)
  with hm assms obtain r rs where c: "c = r # rs" by (cases c) (auto simp: shape4_def)
  with hm i assms show ?thesis by (simp add: shape_W_def shape4_def)
qed

lemma shape4_no_empty:
  assumes "shape4 hm N K H W" "0 < N" "0 < K" "0 < H" "0 < W"
  shows "\<not> (hm = [] \<or> list_ex (\<lambda>inst. inst = [] \<or> list_ex (\<lambda>ch. concat ch = []) inst) hm)"
proof -
  have "concat ch \<noteq> []" if "shape2 ch H W" for ch
    using shape2_concat_length [OF that] assms by (auto simp del: concat_eq_Nil_conv)
  then show ?thesis
    using assms by (fastforce simp: shape4_def shape2_def list_all_iff list_ex_iff)
qed



section \<open>Properties of the accuracy metrics\<close>

lemma length_filter_mono:
  "(\<And>x. x \<in> set xs \<Longrightarrow> P x \<Longrightarrow> Q x) \<Longrightarrow> length (filter P xs) \<le> length (filter Q xs)"
  by (induction xs) auto

lemma distance_acc_valid:
  assumes "list_ex (\<lambda>d. d \<noteq> Some (- 1)) ds"
  shows "distance_acc ds thr =
     real (length (filter (\<lambda>d. case d of Some v \<Rightarrow> v < thr | None \<Rightarrow> False)
                           (filter (\<lambda>d. d \<noteq> Some (- 1)) ds)))
           / real (length (filter (\<lambda>d. d \<noteq> Some (- 1)) ds))"
proof -
  from assms have "0 < length (filter (\<lambda>d. d \<noteq> Some (- 1)) ds)"
    by (simp add: list_ex_iff filter_empty_conv)
  then show ?thesis
    unfolding distance_acc_def Let_def by (simp only: if_True)
qed

lemma distance_acc_invalid:
  assumes "\<not> list_ex (\<lambda>d. d \<noteq> Some (- 1)) ds"
  shows "distance_acc ds thr = - 1"
proof -
  from assms have "\<not> 0 < length (filter (\<lambda>d. d \<noteq> Some (- 1)) ds)"
    by (simp add: list_ex_iff filter_empty_conv)
  then show ?thesis
    unfolding distance_acc_def Let_def by (simp only: if_False)
qed

lemma distance_acc_nonneg_iff:
  "0 \<le> distance_acc ds thr \<longleftrightarrow> list_ex (\<lambda>d. d \<noteq> Some (- 1)) ds"
proof (cases "list_ex (\<lambda>d. d \<noteq> Some (- 1)) ds")
  case True
  have "0 \<le> distance_acc ds thr"
    unfolding distance_acc_valid [OF True] by (rule divide_nonneg_nonneg) simp_all
  with True show ?thesis by simp
next
  case False
  then show ?thesis using distance_acc_invalid [OF False, of thr] by simp
qed

lemma distance_acc_sentinel_iff:
  "distance_acc ds thr = - 1 \<longleftrightarrow> \<not> list_ex (\<lambda>d. d \<noteq> Some (- 1)) ds"
  using distance_acc_nonneg_iff [of ds thr] distance_acc_invalid [of ds thr] by fastforce

lemma distance_acc_mono:
  assumes "t1 \<le> t2"
  shows "distance_acc ds t1 \<le> distance_acc ds t2"
proof (cases "list_ex (\<lambda>d. d \<noteq> Some (- 1)) ds")
  case False
  show ?thesis using distance_acc_invalid [OF False] by simp
next
  case True
  let ?valid = "filter (\<lambda>d. d \<noteq> Some (- 1)) ds"
  have "length (filter (\<lambda>d. case d of Some v \<Rightarrow> v < t1 | None \<Rightarrow> False) ?valid)
        \<le> length (filter (\<lambda>d. case d of Some v \<Rightarrow> v < t2 | None \<Rightarrow> False) ?valid)"
    using assms by (intro length_filter_mono) (auto split: option.splits)
  then have "real (length (filter (\<lambda>d. case d of Some v \<Rightarrow> v < t1 | None \<Rightarrow> False) ?valid))
               / real (length ?valid)
        \<le> real (length (filter (\<lambda>d. case d of Some v \<Rightarrow> v < t2 | None \<Rightarrow> False) ?valid))
               / real (length ?valid)"
    by (intro divide_right_mono) simp_all
  then show ?thesis by (simp only: distance_acc_valid [OF True])
qed

lemma valid_acc_eq:
  "filter (\<lambda>a. a \<ge> 0) (map (\<lambda>d. distance_acc d thr) dss)
     = map (\<lambda>d. distance_acc d thr) (filter (list_ex (\<lambda>d. d \<noteq> Some (- 1))) dss)"
  by (induction dss) (simp_all add: distance_acc_nonneg_iff)

lemma avg_acc_mono:
  assumes "t1 \<le> t2"
  shows "sum_list (filter (\<lambda>a. a \<ge> 0) (map (\<lambda>d. distance_acc d t1) dss))
         \<le> sum_list (filter (\<lambda>a. a \<ge> 0) (map (\<lambda>d. distance_acc d t2) dss))"
  unfolding valid_acc_eq by (intro sum_list_mono distance_acc_mono assms)

lemma calc_distances_shapes:
  assumes "metric_shapes pred gt vis_mask norm_factor N K" "0 < N"
  shows "\<exists>distances. calc_distances pred gt vis_mask norm_factor = Returns distances \<and>
           length distances = K \<and>
           (\<forall>k<K. length (distances ! k) = N \<and>
              (\<forall>n<N. \<not> vis_mask ! n ! k \<longrightarrow> distances ! k ! n = Some (- 1)))"
proof -
  from assms obtain p ps where p: "pred = p # ps" "length p = K"
    by (cases pred) (auto simp: metric_shapes_def)
  have N: "length pred = N" using assms by (simp add: metric_shapes_def)
  have K: "(case pred of [] \<Rightarrow> 0 | p # _ \<Rightarrow> length p) = K" using p by simp
  define vals where "vals = concat (map (\<lambda>n. map (\<lambda>k. norm_dist (pred ! n ! k) (gt ! n ! k)
                                                  (norm_factor ! n))
                                         (filter (\<lambda>k. vis_mask ! n ! k) [0..<K])) [0..<N])"
  define maskT where "maskT = concat (map (\<lambda>k. map (\<lambda>n. vis_mask ! n ! k) [0..<N]) [0..<K])"
  have "calc_distances pred gt vis_mask norm_factor =
          Returns (map (\<lambda>k. map (\<lambda>n. if vis_mask ! n ! k
                                        then vals ! length (filter id (take (k * N + n) maskT))
                                        else Some (- 1)) [0..<N]) [0..<K])"
    unfolding calc_distances_def Let_def N K vals_def maskT_def using assms(1) by simp
  then show ?thesis by simp
qed

text \<open>
  C10. For fixed predictions, ground truth, visibility mask and normalization factor of a
  non-empty batch, and thresholds \<open>t1 \<le> t2\<close>, \<^verbatim>\<open>keypoint_pck_accuracy\<close> returns at both
  thresholds; every per-channel accuracy at \<open>t1\<close> is at most the one at \<open>t2\<close>, a channel has
  the sentinel -1 at \<open>t1\<close> exactly when it has it at \<open>t2\<close>, the number of valid channels is
  the same, and the averaged accuracy at \<open>t1\<close> is at most the one at \<open>t2\<close>.
\<close>

theorem pck_threshold_monotone:
  assumes shp: "metric_shapes pred gt vis_mask norm_factor N K" and N: "0 < N"
    and thr: "t1 \<le> t2"
  shows "\<exists>acc1 avg1 acc2 avg2 cnt.
           keypoint_pck_accuracy pred gt vis_mask t1 norm_factor = Returns (acc1, avg1, cnt) \<and>
           keypoint_pck_accuracy pred gt vis_mask t2 norm_factor = Returns (acc2, avg2, cnt) \<and>
           length acc1 = K \<and> length acc2 = K \<and>
           (\<forall>k<K. acc1 ! k \<le> acc2 ! k \<and> (acc1 ! k = - 1 \<longleftrightarrow> acc2 ! k = - 1)) \<and>
           avg1 \<le> avg2"
proof -
  from calc_distances_shapes [OF shp N] obtain distances where
    d: "calc_distances pred gt vis_mask norm_factor = Returns distances" "length distances = K"
    by blast
  let ?acc = "\<lambda>t. map (\<lambda>d. distance_acc d t) distances"
  let ?valid = "\<lambda>t. filter (\<lambda>a. a \<ge> 0) (?acc t)"
  let ?cnt = "length (filter (list_ex (\<lambda>d. d \<noteq> Some (- 1))) distances)"
  let ?avg = "\<lambda>t. if ?cnt > 0 then sum_list (?valid t) / real ?cnt else 0"
  have cnt: "length (?valid t) = ?cnt" for t
    by (simp only: valid_acc_eq length_map)
  have ret: "keypoint_pck_accuracy pred gt vis_mask t norm_factor = Returns (?acc t, ?avg t, ?cnt)" for t
    unfolding keypoint_pck_accuracy_def d bind_res.simps Let_def cnt ..
  have per: "?acc t1 ! k \<le> ?acc t2 ! k \<and> (?acc t1 ! k = - 1 \<longleftrightarrow> ?acc t2 ! k = - 1)" if "k < K" for k
    using that d(2) distance_acc_mono [OF thr] by (simp add: distance_acc_sentinel_iff)
  have avg: "?avg t1 \<le> ?avg t2"
    using avg_acc_mono [OF thr, of distances] by (simp add: divide_right_mono)
  have len: "length (?acc t) = K" for t using d(2) by simp
  from ret [of t1] ret [of t2] len [of t1] len [of t2] per avg show ?thesis by blast
qed

theorem pck_threshold_monotone_witness:
  "metric_shapes [[(0, 0), (1, 0)]] [[(0, 0), (0, 0)]] [[True, True]] [(1, 1)] 1 2 \<and>
   keypoint_pck_accuracy [[(0, 0), (1, 0)]] [[(0, 0), (0, 0)]] [[True, True]] (1 / 2) [(1, 1)]
     = Returns ([1, 0], 1 / 2, 2) \<and>
   keypoint_pck_accuracy [[(0, 0), (1, 0)]] [[(0, 0), (0, 0)]] [[True, True]] 2 [(1, 1)]
     = Returns ([1, 1], 1, 2)"
proof -
  have shp: "metric_shapes [[(0, 0), (1, 0)]] [[(0, 0), (0, 0)]] [[True, True]] [(1, 1)] 1 2"
    by (simp add: metric_shapes_def)
  have d: "calc_distances [[(0, 0), (1, 0)]] [[(0, 0), (0, 0)]] [[True, True]] [(1, 1)]
             = Returns [[Some 0], [Some 1]]"
    using shp by (simp add: calc_distances_def Let_def norm_dist_def fdiv_def upt_rec numeral_2_eq_2)
  have e1: "keypoint_pck_accuracy [[(0, 0), (1, 0)]] [[(0, 0), (0, 0)]] [[True, True]] (1 / 2) [(1, 1)]
     = Returns ([1, 0], 1 / 2, 2)"
    by (simp add: keypoint_pck_accuracy_def d distance_acc_def Let_def)
  have e2: "keypoint_pck_accuracy [[(0, 0), (1, 0)]] [[(0, 0), (0, 0)]] [[True, True]] 2 [(1, 1)]
     = Returns ([1, 1], 1, 2)"
    by (simp add: keypoint_pck_accuracy_def d distance_acc_def Let_def)
  have "(1 / 2 :: real) \<le> 2" by simp
  from pck_threshold_monotone [OF shp _ this] e1 e2 shp show ?thesis by simp
qed






section \<open>Properties of the Taylor refinement\<close>

lemma py_get2_in_range:
  assumes "shape2 ch H W" "0 \<le> y" "y < int H" "0 \<le> x" "x < int W"
  shows "py_get2 ch y x = Returns (px_at ch y x)"
proof -
  from assms have row: "length (ch ! nat y) = W" "length ch = H"
    by (auto simp: shape2_def list_all_length)
  with assms show ?thesis
    by (simp add: py_get2_def py_get_def px_at_def Let_def)
qed

lemma shape2_chan_dims:
  assumes "shape2 ch H W" "0 < H"
  shows "chan_H ch = H" "chan_W ch = W"
  using assms by (cases ch; auto simp: shape2_def chan_H_def chan_W_def)+

lemma shape2_chan_H: "shape2 ch H W \<Longrightarrow> chan_H ch = H"
  by (simp add: shape2_def chan_H_def)






section \<open>Properties of the Gaussian blur\<close>




lemma conv1d_length [simp]: "length (conv1d kern xs) = length xs"
  by (simp add: conv1d_def)


















lemma map_res_Returns:
  assumes "\<And>x. x \<in> set xs \<Longrightarrow> \<exists>y. f x = Returns y \<and> P x y"
  shows "\<exists>ys. map_res f xs = Returns ys \<and> list_all2 P xs ys"
  using assms
proof (induction xs)
  case Nil
  then show ?case by simp
next
  case (Cons x xs)
  from Cons.prems obtain y where y: "f x = Returns y" "P x y" by auto
  from Cons obtain ys where ys: "map_res f xs = Returns ys" "list_all2 P xs ys" by auto
  from y ys show ?case by simp
qed




section \<open>Properties of the shift refinement\<close>


lemma shift_guard_iff:
  "(1 < px \<and> px < int W - 1 \<and> 1 < py \<and> py < int H - 1)
     \<longleftrightarrow> (2 \<le> px \<and> px \<le> int W - 2 \<and> 2 \<le> py \<and> py \<le> int H - 2)"
  by auto

lemma shift_pred_spec:
  assumes shp: "shape2 ch H W"
  shows "shift_pred W H ch p =
     Returns (let px = py_int (fst p); py = py_int (snd p)
              in if 2 \<le> px \<and> px \<le> int W - 2 \<and> 2 \<le> py \<and> py \<le> int H - 2
                 then (fst p + np_sign (px_at ch py (px + 1) - px_at ch py (px - 1)) * 0.25,
                       snd p + np_sign (px_at ch (py + 1) px - px_at ch (py - 1) px) * 0.25)
                 else p)"
proof -
  define px where "px = py_int (fst p)"
  define py where "py = py_int (snd p)"
  show ?thesis
  proof (cases "2 \<le> px \<and> px \<le> int W - 2 \<and> 2 \<le> py \<and> py \<le> int H - 2")
    case False
    then show ?thesis
      unfolding shift_pred_def Let_def px_def py_def shift_guard_iff by (auto simp only: if_False)
  next
    case True
    then have gets:
      "py_get2 ch py (px + 1) = Returns (px_at ch py (px + 1))"
      "py_get2 ch py (px - 1) = Returns (px_at ch py (px - 1))"
      "py_get2 ch (py + 1) px = Returns (px_at ch (py + 1) px)"
      "py_get2 ch (py - 1) px = Returns (px_at ch (py - 1) px)"
      by (auto intro!: py_get2_in_range [OF shp])
    from True show ?thesis
      unfolding shift_pred_def Let_def px_def [symmetric] py_def [symmetric] shift_guard_iff
      by (simp add: gets)
  qed
qed

lemma map_res_pure:
  assumes "\<And>x. x \<in> set xs \<Longrightarrow> f x = Returns (g x)"
  shows "map_res f xs = Returns (map g xs)"
  using assms by (induction xs) simp_all

lemma shape4_shape_H:
  assumes "shape4 hm N K H W" "0 < N" "0 < K"
  shows "shape_H hm = H"
proof -
  from assms obtain i hm' where hm: "hm = i # hm'" by (cases hm) (auto simp: shape4_def)
  with assms obtain c cs where i: "i = c # cs" by (cases i) (auto simp: shape4_def)
  with hm assms show ?thesis by (simp add: shape_H_def shape4_def)
qed

lemma transform_all:
  assumes "length center = N" "length scale = N"
  shows "map_res (\<lambda>i. bind_res (py_get center (int i)) (\<lambda>c.
                       bind_res (py_get scale (int i)) (\<lambda>s. Returns (h i c s)))) [0..<N]
         = Returns (map (\<lambda>i. h i (center ! i) (scale ! i)) [0..<N])"
  using assms by (intro map_res_pure) (simp add: py_get_def)

text \<open>
  C3, as amended. In the shift mode of \<^verbatim>\<open>keypoints_from_heatmaps\<close> (post-processing on, not
  unbiased, no UDP) on a batch of shape (N, K, H, W), the coordinate of every (instance,
  channel) that is handed to \<^verbatim>\<open>transform_preds\<close> is the argmax coordinate plus 0.25 times the
  sign of the finite-difference gradient on each axis exactly when the integer peak has
  \<open>2 \<le> px \<le> W - 2\<close> and \<open>2 \<le> py \<le> H - 2\<close>, that is at least 2 pixels from the left and
  top borders and at least 1 pixel from the right and bottom borders; every other peak
  keeps its argmax coordinate. No read leaves the channel, and the heatmaps array is as it
  was.
\<close>

theorem shift_refinement:
  assumes shp: "shape4 hm N K H W" and pos: "0 < N" "0 < K" "0 < H" "0 < W"
    and cs: "length center = N" "length scale = N"
  shows "\<exists>preds maxvals refined.
      get_max_preds hm = Returns (preds, maxvals) \<and>
      keypoints_from_heatmaps tp gk hm center scale True False kernel_size kpd False target_type
        = Returns ((map (\<lambda>i. tp (refined ! i) (center ! i) (scale ! i) (W, H) False) [0..<N],
                    maxvals), hm) \<and>
      length refined = N \<and>
      (\<forall>n<N. length (refined ! n) = K \<and>
         (\<forall>k<K. refined ! n ! k =
            (let p = preds ! n ! k; ch = hm ! n ! k; px = py_int (fst p); py = py_int (snd p)
             in if 2 \<le> px \<and> px \<le> int W - 2 \<and> 2 \<le> py \<and> py \<le> int H - 2
                then (fst p + np_sign (px_at ch py (px + 1) - px_at ch py (px - 1)) * 0.25,
                      snd p + np_sign (px_at ch (py + 1) px - px_at ch (py - 1) px) * 0.25)
                else p)))"
proof -
  define S where "S = (\<lambda>ch p.
            (let px = py_int (fst p); py = py_int (snd p)
             in if 2 \<le> px \<and> px \<le> int W - 2 \<and> 2 \<le> py \<and> py \<le> int H - 2
                then (fst p + np_sign (px_at ch py (px + 1) - px_at ch py (px - 1)) * 0.25,
                      snd p + np_sign (px_at ch (py + 1) px - px_at ch (py - 1) px) * 0.25)
                else p))"
  define preds where "preds = map (map (\<lambda>ch. fst (max_pred_chan W ch))) hm"
  define maxvals where "maxvals = map (map (\<lambda>ch. [snd (max_pred_chan W ch)])) hm"
  define refined where "refined = map (\<lambda>(inst, ps). map (\<lambda>(ch, p). S ch p) (zip inst ps)) (zip hm preds)"
  have W: "shape_W hm = W" by (rule shape4_shape_W [OF shp pos(1-3)])
  have H: "shape_H hm = H" by (rule shape4_shape_H [OF shp pos(1,2)])
  have len: "length hm = N" and lenK: "\<And>n. n < N \<Longrightarrow> length (hm ! n) = K"
    using shp by (auto simp: shape4_def list_all_length)
  have chs: "\<And>inst ch. inst \<in> set hm \<Longrightarrow> ch \<in> set inst \<Longrightarrow> shape2 ch H W"
    using shp by (auto simp: shape4_def shape2_def list_all_iff)
  have gmp: "get_max_preds hm = Returns (preds, maxvals)"
    using shape4_no_empty [OF shp pos] by (simp add: get_max_preds_def W preds_def maxvals_def)
  have sp: "shift_pred W H ch p = Returns (S ch p)" if "inst \<in> set hm" "ch \<in> set inst" for inst ch p
    using shift_pred_spec [OF chs [OF that]] by (simp add: S_def Let_def)
  have inner: "map_res (\<lambda>(ch, p). shift_pred W H ch p) (zip inst ps)
                 = Returns (map (\<lambda>(ch, p). S ch p) (zip inst ps))"
    if "inst \<in> set hm" for inst ps
    using sp [OF that] by (intro map_res_pure) (auto dest: set_zip_leftD)
  have ref: "refine_all (shift_pred W H) hm preds = Returns refined"
    unfolding refine_all_def refined_def
    using inner by (intro map_res_pure) (auto dest: set_zip_leftD)
  have kfh: "keypoints_from_heatmaps tp gk hm center scale True False kernel_size kpd False target_type
        = Returns ((map (\<lambda>i. tp (refined ! i) (center ! i) (scale ! i) (W, H) False) [0..<N],
                    maxvals), hm)"
    unfolding keypoints_from_heatmaps_def Let_def W H len
    by (simp add: gmp ref transform_all [OF cs])
  have lp: "length preds = N" "\<And>n. n < N \<Longrightarrow> length (preds ! n) = K"
    using len lenK by (simp_all add: preds_def)
  have lr: "length refined = N" using len lp by (simp add: refined_def)
  have rn: "length (refined ! n) = K \<and> (\<forall>k<K. refined ! n ! k = S (hm ! n ! k) (preds ! n ! k))"
    if "n < N" for n
    using that len lp lenK [OF that] by (simp add: refined_def)
  show ?thesis
    using gmp kfh lr rn unfolding S_def by (intro exI [of _ preds] exI [of _ maxvals] exI [of _ refined]) (simp add: Let_def)
qed

lemma keypoints_from_heatmaps_shift:
  "keypoints_from_heatmaps tp gk hm center scale True False kernel_size kpd False target_type =
     bind_res (bind_res (get_max_preds hm) (\<lambda>(preds, maxvals).
                 bind_res (refine_all (shift_pred (shape_W hm) (shape_H hm)) hm preds) (\<lambda>preds.
                   Returns (preds, maxvals, hm))))
       (\<lambda>(preds, maxvals, heatmaps_after).
          bind_res (map_res (\<lambda>i. bind_res (py_get center (int i)) (\<lambda>c.
                                   bind_res (py_get scale (int i)) (\<lambda>s.
                                     Returns (tp (preds ! i) c s (shape_W hm, shape_H hm) False))))
                            [0..<length hm]) (\<lambda>preds.
            Returns ((preds, maxvals), heatmaps_after)))"
  by (simp add: keypoints_from_heatmaps_def Let_def)

theorem shift_refinement_witness:
  "shape4 [[[[0, 0, 0, 0, 0], [0, 0, 0, 0, 0], [0, 0, 3, 5, 1], [0, 0, 0, 2, 0], [0, 0, 0, 0, 0]]]]
     1 1 5 5 \<and>
   keypoints_from_heatmaps (\<lambda>ps c s wh udp. ps) small_gaussian_tab
     [[[[0, 0, 0, 0, 0], [0, 0, 0, 0, 0], [0, 0, 3, 5, 1], [0, 0, 0, 2, 0], [0, 0, 0, 0, 0]]]]
     [(0, 0)] [(1, 1)] True False 11 (7 / 2) False ''GaussianHeatMap''
   = Returns (([[(11 / 4, 9 / 4)]], [[[5]]]),
       [[[[0, 0, 0, 0, 0], [0, 0, 0, 0, 0], [0, 0, 3, 5, 1], [0, 0, 0, 2, 0], [0, 0, 0, 0, 0]]]])"
proof -
  let ?hm = "[[[[0, 0, 0, 0, 0], [0, 0, 0, 0, 0], [0, 0, 3, 5, 1], [0, 0, 0, 2, 0], [0, 0, 0, 0, 0 :: real]]]]"
  have shp: "shape4 ?hm 1 1 5 5" by (simp add: shape4_def)
  from shift_refinement [OF shp, of "[(0, 0)]" "[(1, 1)]" "\<lambda>ps c s wh udp. ps" small_gaussian_tab
      11 "7 / 2" "''GaussianHeatMap''"]
  obtain mv r where
    "keypoints_from_heatmaps (\<lambda>ps c s wh udp. ps) small_gaussian_tab ?hm [(0, 0)] [(1, 1)]
       True False 11 (7 / 2) False ''GaussianHeatMap'' = Returns ((map (\<lambda>i. r ! i) [0..<1], mv), ?hm)"
    by auto
  moreover have "keypoints_from_heatmaps (\<lambda>ps c s wh udp. ps) small_gaussian_tab ?hm [(0, 0)] [(1, 1)]
       True False 11 (7 / 2) False ''GaussianHeatMap'' = Returns (([[(11 / 4, 9 / 4)]], [[[5]]]), ?hm)"
    unfolding keypoints_from_heatmaps_shift by code_simp
  ultimately show ?thesis using shp by simp
qed

text \<open>
  The claim as stated has one distance condition for all four borders. Two channels that
  mirror each other, with the peak 1 pixel from the left border in one and 1 pixel from
  the right border in the other, are not treated alike: the first peak is left at its
  argmax coordinate, the second is shifted.
\<close>

theorem shift_border_counterexample:
  "border_dist 5 5 1 2 = 1 \<and> border_dist 5 5 3 2 = 1 \<and>
   keypoints_from_heatmaps (\<lambda>ps c s wh udp. ps) small_gaussian_tab
     [[[[0, 0, 0, 0, 0], [0, 0, 0, 0, 0], [1, 5, 3, 0, 0], [0, 2, 0, 0, 0], [0, 0, 0, 0, 0]]]]
     [(0, 0)] [(1, 1)] True False 11 (7 / 2) False ''GaussianHeatMap''
   = Returns (([[(1, 2)]], [[[5]]]),
       [[[[0, 0, 0, 0, 0], [0, 0, 0, 0, 0], [1, 5, 3, 0, 0], [0, 2, 0, 0, 0], [0, 0, 0, 0, 0]]]]) \<and>
   keypoints_from_heatmaps (\<lambda>ps c s wh udp. ps) small_gaussian_tab
     [[[[0, 0, 0, 0, 0], [0, 0, 0, 0, 0], [0, 0, 3, 5, 1], [0, 0, 0, 2, 0], [0, 0, 0, 0, 0]]]]
     [(0, 0)] [(1, 1)] True False 11 (7 / 2) False ''GaussianHeatMap''
   = Returns (([[(11 / 4, 9 / 4)]], [[[5]]]),
       [[[[0, 0, 0, 0, 0], [0, 0, 0, 0, 0], [0, 0, 3, 5, 1], [0, 0, 0, 2, 0], [0, 0, 0, 0, 0]]]])"
  unfolding keypoints_from_heatmaps_shift by code_simp

section \<open>The DARK refinement reads and writes instance 0\<close>

lemma keypoints_from_heatmaps_dark:
  "keypoints_from_heatmaps tp gk hm center scale True unbiased kernel_size kpd True
       ''GaussianHeatMap'' =
     bind_res (bind_res (get_max_preds hm) (\<lambda>(coords, maxvals).
                 bind_res (post_dark gk coords hm) (\<lambda>(coords, heatmaps).
                   Returns (coords, maxvals, heatmaps))))
       (\<lambda>(preds, maxvals, heatmaps_after).
          bind_res (map_res (\<lambda>i. bind_res (py_get center (int i)) (\<lambda>c.
                                   bind_res (py_get scale (int i)) (\<lambda>s.
                                     Returns (tp (preds ! i) c s (shape_W hm, shape_H hm) True))))
                            [0..<length hm]) (\<lambda>preds.
            Returns ((preds, maxvals), heatmaps_after)))"
  by (simp add: keypoints_from_heatmaps_def Let_def)

lemma clip_log_high: "50 \<le> v \<Longrightarrow> clip_log v = ln 50"
  by (simp add: clip_log_def)

lemma clip_log_low: "v \<le> 1 / 1000 \<Longrightarrow> clip_log v = ln (1 / 1000)"
  by (simp add: clip_log_def max_def)

lemma linalg_inv_diag:
  assumes "a \<noteq> 0" "b \<noteq> 0"
  shows "linalg_inv ((a, 0), (0, b)) = Returns ((1 / a, 0), (0, 1 / b))"
  using assms by (simp add: linalg_inv_def det2_def)

lemma post_dark_B:
  "post_dark small_gaussian_tab [[(4, 0)], [(1, 0)]] [[[[0, 0, 0, 0, 1600]]], [[[0, 1, 0, 0, 0]]]]
     = Returns ([[(4, 0)], [(1 - (ln 50 - ln (1 / 1000)) / 2 / (ln 50 - ln (1 / 1000) + 1 / 10 ^ 8), 0)]],
                [[[[0, 0, 100, 400, 600]]], [[[0, 1, 0, 0, 0]]]])"
proof -
  define L where "L = ln (1 / 1000 :: real)"
  define U where "U = ln (50 :: real)"
  have LU: "L < U" unfolding L_def U_def by (subst ln_less_cancel_iff) simp_all
  have b: "dark_blur_inplace small_gaussian_tab [[[[0, 0, 0, 0, 1600]]], [[[0, 1, 0, 0, 0]]]]
             = Returns [[[[0, 0, 100, 400, 600]]], [[[0, 1, 0, 0, 0]]]]"
    by code_simp
  have c: "clip_log 0 = L" "clip_log 100 = U" "clip_log 400 = U" "clip_log 600 = U"
    unfolding L_def U_def by (simp_all add: clip_log_high clip_log_low)
  have i1: "linalg_inv ((U - L + 1 / 100000000, 0), (0, 1 / 100000000))
              = Returns ((1 / (U - L + 1 / 100000000), 0), (0, 100000000))"
    using LU linalg_inv_diag [of "U - L + 1 / 100000000" "1 / 100000000"] by simp
  have i0: "linalg_inv ((1 / 100000000, 0), (0, 1 / 100000000))
              = Returns ((100000000, 0), (0, 100000000))"
    using linalg_inv_diag [of "1 / 100000000" "1 / 100000000"] by simp
  have s0: "dark_sample [[[[L, L, L, U, U, U, U], [L, L, L, U, U, U, U], [L, L, L, U, U, U, U]]], p1]
              0 (4, 0) = Returns ((0, 0), ((0, 0), (0, 0)))" for p1
    by (simp add: dark_sample_def py_get2_def py_get_def Let_def)
  have s1: "dark_sample [[[[L, L, L, U, U, U, U], [L, L, L, U, U, U, U], [L, L, L, U, U, U, U]]], p1]
              0 (1, 0) = Returns (((U - L) / 2, 0), ((U - L, 0), (0, 0)))" for p1
    by (simp add: dark_sample_def py_get2_def py_get_def Let_def)
  show ?thesis
    unfolding post_dark_def b bind_res.simps Let_def L_def [symmetric] U_def [symmetric]
    by (simp add: c pad_edge_def edge1_def py_int_def s0 s1 add_eps_def i0 i1 matvec2_def)
qed

lemma post_dark_A:
  "post_dark small_gaussian_tab [[(0, 0)], [(1, 0)]] [[[[1, 1, 1, 1, 1]]], [[[0, 1, 0, 0, 0]]]]
     = Returns ([[(0, 0)], [(1, 0)]], [[[[1, 1, 1, 1, 1]]], [[[0, 1, 0, 0, 0]]]])"
proof -
  have b: "dark_blur_inplace small_gaussian_tab [[[[1, 1, 1, 1, 1]]], [[[0, 1, 0, 0, 0]]]]
             = Returns [[[[1, 1, 1, 1, 1]]], [[[0, 1, 0, 0, 0]]]]"
    by code_simp
  have c: "clip_log 1 = 0" by (simp add: clip_log_def)
  have i0: "linalg_inv ((1 / 100000000, 0), (0, 1 / 100000000))
              = Returns ((100000000, 0), (0, 100000000))"
    using linalg_inv_diag [of "1 / 100000000" "1 / 100000000"] by simp
  have s: "dark_sample [[[[0, 0, 0, 0, 0, 0, 0], [0, 0, 0, 0, 0, 0, 0], [0, 0, 0, 0, 0, 0, 0]]], p1]
              0 (x, 0) = Returns ((0, 0), ((0, 0), (0, 0)))" if "x = 0 \<or> x = 1" for p1 x
    using that by (auto simp: dark_sample_def py_get2_def py_get_def Let_def)
  show ?thesis
    unfolding post_dark_def b bind_res.simps Let_def
    by (simp add: c pad_edge_def edge1_def py_int_def s add_eps_def i0 matvec2_def)
qed

text \<open>
  C1 does not hold of the source. Both loops of \<^verbatim>\<open>post_dark\<close> index the batch with the constant 0
  where the loop variable i is meant: the blur is applied to instance 0 once per instance,
  and the samples of every keypoint of every instance are read from the padded map of
  instance 0. Two batches that differ in instance 0 only give instance 1 (same heatmap,
  center and scale) two different coordinates.
\<close>

theorem dark_decode_reads_instance0:
  "keypoints_from_heatmaps (\<lambda>ps c s wh udp. ps) small_gaussian_tab
     [[[[1, 1, 1, 1, 1]]], [[[0, 1, 0, 0, 0]]]]
     [(0, 0), (0, 0)] [(1, 1), (1, 1)] True False 11 (7 / 2) True ''GaussianHeatMap''
     = Returns (([[(0, 0)], [(1, 0)]], [[[1]], [[1]]]),
                [[[[1, 1, 1, 1, 1]]], [[[0, 1, 0, 0, 0]]]]) \<and>
   keypoints_from_heatmaps (\<lambda>ps c s wh udp. ps) small_gaussian_tab
     [[[[0, 0, 0, 0, 1600]]], [[[0, 1, 0, 0, 0]]]]
     [(0, 0), (0, 0)] [(1, 1), (1, 1)] True False 11 (7 / 2) True ''GaussianHeatMap''
     = Returns (([[(4, 0)],
                  [(1 - (ln 50 - ln (1 / 1000)) / 2 / (ln 50 - ln (1 / 1000) + 1 / 10 ^ 8), 0)]],
                 [[[1600]], [[1]]]),
                [[[[0, 0, 100, 400, 600]]], [[[0, 1, 0, 0, 0]]]]) \<and>
   1 - (ln 50 - ln (1 / 1000)) / 2 / (ln 50 - ln (1 / 1000) + 1 / 10 ^ 8) \<noteq> (1 :: real)"
proof -
  have gA: "get_max_preds [[[[1, 1, 1, 1, 1]]], [[[0, 1, 0, 0, 0]]]]
              = Returns ([[(0, 0)], [(1, 0)]], [[[1]], [[1]]])"
    by code_simp
  have gB: "get_max_preds [[[[0, 0, 0, 0, 1600]]], [[[0, 1, 0, 0, 0]]]]
              = Returns ([[(4, 0)], [(1, 0)]], [[[1600]], [[1]]])"
    by code_simp
  have A: "keypoints_from_heatmaps (\<lambda>ps c s wh udp. ps) small_gaussian_tab
     [[[[1, 1, 1, 1, 1]]], [[[0, 1, 0, 0, 0]]]]
     [(0, 0), (0, 0)] [(1, 1), (1, 1)] True False 11 (7 / 2) True ''GaussianHeatMap''
     = Returns (([[(0, 0)], [(1, 0)]], [[[1]], [[1]]]),
                [[[[1, 1, 1, 1, 1]]], [[[0, 1, 0, 0, 0]]]])"
    unfolding keypoints_from_heatmaps_dark gA bind_res.simps prod.case post_dark_A
    by (simp add: py_get_def upt_rec)
  have B: "keypoints_from_heatmaps (\<lambda>ps c s wh udp. ps) small_gaussian_tab
     [[[[0, 0, 0, 0, 1600]]], [[[0, 1, 0, 0, 0]]]]
     [(0, 0), (0, 0)] [(1, 1), (1, 1)] True False 11 (7 / 2) True ''GaussianHeatMap''
     = Returns (([[(4, 0)],
                  [(1 - (ln 50 - ln (1 / 1000)) / 2 / (ln 50 - ln (1 / 1000) + 1 / 10 ^ 8), 0)]],
                 [[[1600]], [[1]]]),
                [[[[0, 0, 100, 400, 600]]], [[[0, 1, 0, 0, 0]]]])"
    unfolding keypoints_from_heatmaps_dark gB bind_res.simps prod.case post_dark_B
    by (simp add: py_get_def upt_rec)
  define D where "D = ln 50 - ln (1 / 1000 :: real)"
  have "ln (1 / 1000 :: real) < ln 50" by (subst ln_less_cancel_iff) simp_all
  then have D: "0 < D" by (simp add: D_def)
  then have "0 < D / 2 / (D + 1 / 10 ^ 8)" by (intro divide_pos_pos) simp_all
  then have "(ln 50 - ln (1 / 1000)) / 2 / (ln 50 - ln (1 / 1000) + 1 / 10 ^ 8) \<noteq> (0 :: real)"
    unfolding D_def by linarith
  then have ne: "1 - (ln 50 - ln (1 / 1000)) / 2 / (ln 50 - ln (1 / 1000) + 1 / 10 ^ 8) \<noteq> (1 :: real)"
    by linarith
  from A B ne show ?thesis by (intro conjI)
qed

lemma dark_sample_instance0:
  "dark_sample (p0 # ps) j c = dark_sample (p0 # ps') j c"
  by (simp add: dark_sample_def py_get_def)

text \<open>
  The coordinates \<^verbatim>\<open>post_dark\<close> returns for a batch do not depend on the heatmaps of the
  instances after the first: for an instance \<open>i > 0\<close> only the argmax it was given comes
  from its own heatmap.
\<close>

lemma post_dark_ignores_other_instances:
  assumes "length rest = length rest'"
  shows "res_map fst (post_dark gk coords (h0 # rest))
           = res_map fst (post_dark gk coords (h0 # rest'))"
proof (cases "map_res (blur_times gk (Suc (length rest))) h0")
  case (Raises e)
  with assms show ?thesis by (simp add: post_dark_def dark_blur_inplace_def)
next
  case NonFinite
  with assms show ?thesis by (simp add: post_dark_def dark_blur_inplace_def)
next
  case (Returns inst0)
  let ?pad = "\<lambda>r. map (map (\<lambda>ch. pad_edge (map (map clip_log) ch))) (inst0 # r)"
  have s: "dark_sample (?pad rest) j c = dark_sample (?pad rest') j c" for j c
    by (simp add: dark_sample_instance0)
  have b: "dark_blur_inplace gk (h0 # r) = Returns (inst0 # r)" if "length r = length rest" for r
    using Returns that by (simp add: dark_blur_inplace_def)
  show ?thesis
    unfolding post_dark_def b [OF refl] b [OF assms [symmetric]] bind_res.simps Let_def s
    by (cases "map_res (\<lambda>row. map_res (\<lambda>(j, c). dark_sample (?pad rest') j c)
                                      (zip [0..<length row] row))
                 (map (map (\<lambda>c. (py_int (fst c), py_int (snd c)))) coords)";
        simp; (rename_tac samples, case_tac "map_res (map_res (\<lambda>(derivative, hessian).
                       bind_res (linalg_inv (add_eps hessian)) (\<lambda>inv_hessian.
                         Returns (derivative, inv_hessian)))) samples"; simp))
qed

section \<open>In-place effects of the decode\<close>




lemma post_dark_flat:
  "post_dark small_gaussian_tab [[(1, 0)]] [[[[100, 200]]]] = Returns ([[(1, 0)]], [[[[150, 150]]]])"
proof -
  have b: "dark_blur_inplace small_gaussian_tab [[[[100, 200]]]] = Returns [[[[150, 150]]]]"
    by code_simp
  have c: "clip_log 150 = ln 50" by (rule clip_log_high) simp
  show ?thesis
    unfolding post_dark_def b bind_res.simps Let_def
    by (simp add: c pad_edge_def edge1_def dark_sample_def py_get2_def py_get_def py_int_def
        linalg_inv_def add_eps_def det2_def matvec2_def Let_def)
qed

lemma post_dark_flat2:
  "post_dark small_gaussian_tab [[(0, 0)]] [[[[150, 150]]]] = Returns ([[(0, 0)]], [[[[150, 150]]]])"
proof -
  have b: "dark_blur_inplace small_gaussian_tab [[[[150, 150]]]] = Returns [[[[150, 150]]]]"
    by code_simp
  have c: "clip_log 150 = ln 50" by (rule clip_log_high) simp
  show ?thesis
    unfolding post_dark_def b bind_res.simps Let_def
    by (simp add: c pad_edge_def edge1_def dark_sample_def py_get2_def py_get_def py_int_def
        linalg_inv_def add_eps_def det2_def matvec2_def Let_def)
qed

text \<open>
  C6 does not hold of the source. In the DARK mode the blur of \<^verbatim>\<open>post_dark\<close> is written into
  the array the caller passed: after the call the array differs from the one given, and a
  second call on it returns other coordinates and other scores than the first.
\<close>

theorem decode_mutates_heatmaps:
  "keypoints_from_heatmaps (\<lambda>ps c s wh udp. ps) small_gaussian_tab [[[[100, 200]]]]
     [(0, 0)] [(1, 1)] True False 11 (7 / 2) True ''GaussianHeatMap''
     = Returns (([[(1, 0)]], [[[200]]]), [[[[150, 150]]]]) \<and>
   keypoints_from_heatmaps (\<lambda>ps c s wh udp. ps) small_gaussian_tab [[[[150, 150]]]]
     [(0, 0)] [(1, 1)] True False 11 (7 / 2) True ''GaussianHeatMap''
     = Returns (([[(0, 0)]], [[[150]]]), [[[[150, 150]]]])"
proof -
  have g1: "get_max_preds [[[[100, 200]]]] = Returns ([[(1, 0)]], [[[200]]])" by code_simp
  have g2: "get_max_preds [[[[150, 150]]]] = Returns ([[(0, 0)]], [[[150]]])" by code_simp
  show ?thesis
    unfolding keypoints_from_heatmaps_dark g1 g2
    by (simp add: post_dark_flat post_dark_flat2 py_get_def)
qed

lemma keypoints_from_heatmaps_unbiased:
  "0 < kernel_size \<Longrightarrow>
   keypoints_from_heatmaps tp gk hm center scale True True kernel_size kpd False target_type =
     bind_res (bind_res (get_max_preds hm) (\<lambda>(preds, maxvals).
                 bind_res (gaussian_blur gk hm kernel_size) (\<lambda>heatmaps.
                   bind_res (refine_all taylor
                               (map (map (map (map (\<lambda>v. ln (max v (1 / 10 ^ 10)))))) heatmaps)
                               preds) (\<lambda>preds.
                     Returns (preds, maxvals, heatmaps)))))
       (\<lambda>(preds, maxvals, heatmaps_after).
          bind_res (map_res (\<lambda>i. bind_res (py_get center (int i)) (\<lambda>c.
                                   bind_res (py_get scale (int i)) (\<lambda>s.
                                     Returns (tp (preds ! i) c s (shape_W hm, shape_H hm) False))))
                            [0..<length hm]) (\<lambda>preds.
            Returns ((preds, maxvals), heatmaps_after)))"
  by (simp add: keypoints_from_heatmaps_def Let_def)

text \<open>
  The unbiased mode does the same through \<^verbatim>\<open>_gaussian_blur\<close>: the caller's array holds the
  blurred and rescaled heatmaps afterwards.
\<close>

lemma unbiased_decode_mutates_heatmaps:
  "keypoints_from_heatmaps (\<lambda>ps c s wh udp. ps) small_gaussian_tab
     [[[[0, 0, 0], [0, 16, 0], [0, 0, 0]]]] [(0, 0)] [(1, 1)] True True 3 (7 / 2) False
     ''GaussianHeatMap''
     = Returns (([[(1, 1)]], [[[16]]]), [[[[4, 8, 4], [8, 16, 8], [4, 8, 4]]]])"
proof -
  have g: "get_max_preds [[[[0, 0, 0], [0, 16, 0], [0, 0, 0]]]] = Returns ([[(1, 1)]], [[[16]]])"
    by code_simp
  have b: "gaussian_blur small_gaussian_tab [[[[0, 0, 0], [0, 16, 0], [0, 0, 0]]]] 3
             = Returns [[[[4, 8, 4], [8, 16, 8], [4, 8, 4]]]]"
    by code_simp
  have t: "taylor ch (1, 1) = Returns (1, 1)" if "chan_H ch = 3" for ch
    using that by (simp add: taylor_def Let_def py_int_def)
  show ?thesis
    unfolding keypoints_from_heatmaps_unbiased [of 3, simplified] g b
    by (simp add: refine_all_def t chan_H_def py_get_def)
qed

section \<open>The scores returned by the Megvii decode\<close>


lemma megvii_shift_returns:
  assumes shp: "shape2 ch H W"
  shows "\<exists>r. megvii_shift W H ch kp = Returns r"
proof (cases "1 < py_int (fst kp) \<and> py_int (fst kp) < int W - 1 \<and>
              1 < py_int (snd kp) \<and> py_int (snd kp) < int H - 1")
  case False
  then show ?thesis by (auto simp: megvii_shift_def Let_def)
next
  case True
  define px where "px = py_int (fst kp)"
  define py where "py = py_int (snd kp)"
  from True have gets:
      "py_get2 ch py (px + 1) = Returns (px_at ch py (px + 1))"
      "py_get2 ch py (px - 1) = Returns (px_at ch py (px - 1))"
      "py_get2 ch (py + 1) px = Returns (px_at ch (py + 1) px)"
      "py_get2 ch (py - 1) px = Returns (px_at ch (py - 1) px)"
    unfolding px_def py_def by (auto intro!: py_get2_in_range [OF shp])
  from True show ?thesis
    unfolding megvii_shift_def Let_def px_def [symmetric] py_def [symmetric]
    by (simp add: gets)
qed

text \<open>
  C8. Whenever the blur helper returns an array of shape (K, H, W) and the maximum helper
  returns K peak coordinates, \<^verbatim>\<open>MegviiHeatmap.decode\<close> returns, and its second output is its
  first output with one more leading axis: the refined keypoints of shape (1, K, 2) come
  back as "scores" of shape (1, 1, K, 2). The peak values play no part: two maximum
  helpers that agree on the coordinates and differ on the values give the same result, so
  the values \<open>scores / 255 + 0.5\<close> the source computes are dropped.
\<close>

theorem megvii_decode_scores_are_keypoints:
  assumes gb: "utils_gaussian_blur encoded kernel_size = Returns heatmaps"
    and shp: "shape3 heatmaps K H W"
    and m1: "max1 heatmaps = Returns (kps, scores1)"
    and m2: "max2 heatmaps = Returns (kps, scores2)"
    and len: "length kps = K"
  shows "\<exists>keypoints. length keypoints = K \<and>
           megvii_decode utils_gaussian_blur max1 kernel_size encoded
             = Returns ([keypoints], [[keypoints]]) \<and>
           megvii_decode utils_gaussian_blur max2 kernel_size encoded
             = Returns ([keypoints], [[keypoints]])"
proof -
  define Hh where "Hh = (case heatmaps of [] \<Rightarrow> 0 | ch # _ \<Rightarrow> chan_H ch)"
  define Ww where "Ww = (case heatmaps of [] \<Rightarrow> 0 | ch # _ \<Rightarrow> chan_W ch)"
  have lenh: "length heatmaps = K" and chs: "\<And>k. k < K \<Longrightarrow> shape2 (heatmaps ! k) H W"
    using shp by (auto simp: shape3_def list_all_length)
  have dims: "Hh = H \<and> Ww = W" if "0 < K" "0 < H"
  proof -
    from that lenh obtain ch rest where hm: "heatmaps = ch # rest" by (cases heatmaps) auto
    with chs [of 0] that have "shape2 ch H W" by simp
    with that hm show ?thesis by (simp add: Hh_def Ww_def shape2_chan_dims)
  qed
  define f where "f = (\<lambda>k. bind_res (py_get kps (int k)) (\<lambda>kp. megvii_shift Ww Hh (heatmaps ! k) kp))"
  have step: "\<exists>r. f k = Returns r \<and> True" if "k \<in> set [0..<K]" for k
  proof -
    from that have k: "k < K" by simp
    have g: "py_get kps (int k) = Returns (kps ! k)" using k len by (simp add: py_get_def)
    show ?thesis
    proof (cases "0 < H")
      case True
      with k dims have "Hh = H" "Ww = W" by auto
      with megvii_shift_returns [OF chs [OF k], of "kps ! k"] g show ?thesis by (simp add: f_def)
    next
      case False
      from k lenh obtain ch rest where hm: "heatmaps = ch # rest" by (cases heatmaps) auto
      with chs [of 0] k have "shape2 ch H W" by (cases K) auto
      with False hm have "Hh = 0" by (simp add: Hh_def shape2_chan_H)
      then show ?thesis using g by (auto simp: f_def megvii_shift_def Let_def)
    qed
  qed
  from map_res_Returns [of "[0..<K]" f "\<lambda>_ _. True", OF step]
  obtain refined where ref:
    "map_res f [0..<K] = Returns refined" "list_all2 (\<lambda>_ _. True) [0..<K] refined"
    by blast
  have lr: "length refined = K" using ref(2) by (simp add: list_all2_lengthD [symmetric])
  have dec: "megvii_decode utils_gaussian_blur mx kernel_size encoded = Returns ([refined], [[refined]])"
    if "mx heatmaps = Returns (kps, sc)" for mx sc
    unfolding megvii_decode_def gb bind_res.simps Let_def lenh that prod.case
      Hh_def [symmetric] Ww_def [symmetric] f_def [symmetric] ref(1)
    using len by simp
  from dec [of max1 scores1, OF m1] dec [of max2 scores2, OF m2] lr show ?thesis by blast
qed

theorem megvii_decode_scores_are_keypoints_witness:
  "shape3 [[[0, 0, 0, 0, 0], [0, 0, 0, 0, 0], [0, 0, 3, 5, 1], [0, 0, 0, 2, 0], [0, 0, 0, 0, 0]]]
     1 5 5 \<and>
   megvii_decode (\<lambda>hm ks. Returns hm) (\<lambda>hm. Returns ([(3, 2)], [5])) (3 :: int)
     [[[0, 0, 0, 0, 0], [0, 0, 0, 0, 0], [0, 0, 3, 5, 1], [0, 0, 0, 2, 0], [0, 0, 0, 0, 0]]]
     = Returns ([[(13 / 4, 11 / 4)]], [[[(13 / 4, 11 / 4)]]]) \<and>
   megvii_decode (\<lambda>hm ks. Returns hm) (\<lambda>hm. Returns ([(3, 2)], [255])) (3 :: int)
     [[[0, 0, 0, 0, 0], [0, 0, 0, 0, 0], [0, 0, 3, 5, 1], [0, 0, 0, 2, 0], [0, 0, 0, 0, 0]]]
     = Returns ([[(13 / 4, 11 / 4)]], [[[(13 / 4, 11 / 4)]]])"
proof -
  let ?hm = "[[[0, 0, 0, 0, 0], [0, 0, 0, 0, 0], [0, 0, 3, 5, 1], [0, 0, 0, 2, 0], [0, 0, 0, 0, 0 :: real]]]"
  have shp: "shape3 ?hm 1 5 5" by (simp add: shape3_def shape2_def)
  have e: "megvii_decode (\<lambda>hm ks. Returns hm) (\<lambda>hm. Returns ([(3, 2)], [5])) (3 :: int) ?hm
     = Returns ([[(13 / 4, 11 / 4)]], [[[(13 / 4, 11 / 4)]]])"
    by code_simp
  from megvii_decode_scores_are_keypoints [of "\<lambda>hm ks. Returns hm" ?hm "3 :: int" ?hm 1 5 5
      "\<lambda>hm. Returns ([(3, 2)], [5])" "[(3, 2)]" "[5]" "\<lambda>hm. Returns ([(3, 2)], [255])" "[255]",
      OF refl shp refl refl]
  obtain kp where
    "megvii_decode (\<lambda>hm ks. Returns hm) (\<lambda>hm. Returns ([(3, 2)], [5])) (3 :: int) ?hm
       = Returns ([kp], [[kp]])"
    "megvii_decode (\<lambda>hm ks. Returns hm) (\<lambda>hm. Returns ([(3, 2)], [255])) (3 :: int) ?hm
       = Returns ([kp], [[kp]])"
    by auto
  with e shp show ?thesis by simp
qed

end
